theory Spec2Isabelle
  imports Complex_Main
begin

section \<open>Values of the program\<close>

text \<open>
  The two modules \<^verbatim>\<open>mlp/errors.py\<close> and \<^verbatim>\<open>mlp/initialisers.py\<close> compute on numpy
  arrays of \<^verbatim>\<open>float64\<close>. An array is modelled the way numpy stores it: a shape (a tuple
  of non-negative dimensions) and a flat row-major buffer. Elements are modelled as
  real numbers, so every formula below is the exact-arithmetic reading of the source:
  rounding, overflow, underflow, infinities and NaN are outside the model.
\<close>

record ndarray =
  shape :: "nat list"
  data :: "real list"

definition wf_array :: "ndarray \<Rightarrow> bool" where
  "wf_array a \<longleftrightarrow> length (data a) = prod_list (shape a)"

text \<open>Element \<open>(i, j)\<close> of a two-dimensional array with \<open>d\<close> columns.\<close>

definition at2 :: "ndarray \<Rightarrow> nat \<Rightarrow> nat \<Rightarrow> real" where
  "at2 a i j = data a ! (i * (shape a ! 1) + j)"

text \<open>
  The exceptions the code can raise. \<open>NonFinite\<close> is not a Python exception: it marks a
  float computation whose IEEE result is an infinity or a NaN (\<^verbatim>\<open>1/np.sqrt(0)\<close>,
  \<^verbatim>\<open>np.sqrt\<close> of a negative number), which numpy returns with a warning and which has
  no counterpart among the reals.
\<close>

datatype failure = IndexError | ZeroDivisionError | ValueError | AttributeError | NonFinite

text \<open>
  \<^verbatim>\<open>t[i]\<close> on a tuple: a position from the front, or, for a negative \<open>i\<close>, from the
  back; anything else raises \<^verbatim>\<open>IndexError\<close>.
\<close>

definition py_index :: "'a list \<Rightarrow> int \<Rightarrow> failure + 'a" where
  "py_index xs i =
     (if 0 \<le> i \<and> i < int (length xs) then Inr (xs ! nat i)
      else if i < 0 \<and> - int (length xs) \<le> i then Inr (xs ! nat (int (length xs) + i))
      else Inl IndexError)"

text \<open>True division \<^verbatim>\<open>a / b\<close> of two Python ints.\<close>

definition py_truediv :: "int \<Rightarrow> int \<Rightarrow> failure + real" where
  "py_truediv a b = (if b = 0 then Inl ZeroDivisionError else Inr (real_of_int a / real_of_int b))"

subsection \<open>numpy broadcasting\<close>

text \<open>
  Two shapes are compared from their last dimension backwards; two dimensions are
  compatible when they are equal or one of them is 1, and a missing dimension counts
  as 1. \<open>broadcast_shapes\<close> is the resulting shape, or \<open>None\<close> where numpy raises
  \<^verbatim>\<open>ValueError: operands could not be broadcast together\<close>.
\<close>

fun broadcast_rev :: "nat list \<Rightarrow> nat list \<Rightarrow> nat list option" where
  "broadcast_rev [] ys = Some ys"
| "broadcast_rev xs [] = Some xs"
| "broadcast_rev (x # xs) (y # ys) =
     (if x = y \<or> y = 1 then map_option ((#) x) (broadcast_rev xs ys)
      else if x = 1 then map_option ((#) y) (broadcast_rev xs ys)
      else None)"

definition broadcast_shapes :: "nat list \<Rightarrow> nat list \<Rightarrow> nat list option" where
  "broadcast_shapes s t = map_option rev (broadcast_rev (rev s) (rev t))"

text \<open>The first \<open>n\<close> blocks of \<open>k\<close> elements of a buffer.\<close>

fun chunks :: "nat \<Rightarrow> nat \<Rightarrow> 'a list \<Rightarrow> 'a list list" where
  "chunks 0 k xs = []"
| "chunks (Suc n) k xs = take k xs # chunks n k (drop k xs)"

text \<open>
  \<open>stretch s t xs\<close> repeats the buffer \<open>xs\<close> of shape \<open>s\<close> along every dimension where
  \<open>s\<close> has 1 and the target \<open>t\<close> has more (both shapes of the same rank).
\<close>

fun stretch :: "nat list \<Rightarrow> nat list \<Rightarrow> 'a list \<Rightarrow> 'a list" where
  "stretch (s # ss) (t # ts) xs =
     (if s = t then concat (map (stretch ss ts) (chunks s (prod_list ss) xs))
      else concat (replicate t (stretch ss ts xs)))"
| "stretch _ _ xs = xs"

definition broadcast_to :: "nat list \<Rightarrow> ndarray \<Rightarrow> real list" where
  "broadcast_to t a =
     stretch (replicate (length t - length (shape a)) 1 @ shape a) t (data a)"

definition np_subtract :: "ndarray \<Rightarrow> ndarray \<Rightarrow> failure + ndarray" where
  "np_subtract a b =
     (case broadcast_shapes (shape a) (shape b) of
        None \<Rightarrow> Inl ValueError
      | Some s \<Rightarrow>
          Inr \<lparr>shape = s, data = map2 (-) (broadcast_to s a) (broadcast_to s b)\<rparr>)"

definition np_square :: "ndarray \<Rightarrow> ndarray" where
  "np_square a = a\<lparr>data := map (\<lambda>x. x * x) (data a)\<rparr>"

definition np_sum :: "ndarray \<Rightarrow> real" where
  "np_sum a = sum_list (data a)"

text \<open>A Python float times an array.\<close>

definition scalar_times :: "real \<Rightarrow> ndarray \<Rightarrow> ndarray" where
  "scalar_times c a = a\<lparr>data := map (\<lambda>x. c * x) (data a)\<rparr>"

section \<open>mlp/errors.py\<close>

text \<open>
  \<^verbatim>\<open>return 1 / outputs.shape[0] * 0.5 * np.square(outputs - targets).sum()\<close>

  Python evaluates the product from the left: the division first (an \<^verbatim>\<open>IndexError\<close> for
  a zero-dimensional array, a \<^verbatim>\<open>ZeroDivisionError\<close> for an empty batch), then the
  subtraction, which broadcasts or raises.
\<close>

definition SumOfSquaredDiffsError_call :: "ndarray \<Rightarrow> ndarray \<Rightarrow> failure + real" where
  "SumOfSquaredDiffsError_call outputs targets =
     (case py_index (shape outputs) 0 of
        Inl e \<Rightarrow> Inl e
      | Inr n \<Rightarrow>
     (case py_truediv 1 (int n) of
        Inl e \<Rightarrow> Inl e
      | Inr r \<Rightarrow>
     (case np_subtract outputs targets of
        Inl e \<Rightarrow> Inl e
      | Inr diff \<Rightarrow> Inr (r * 0.5 * np_sum (np_square diff)))))"

text \<open>\<^verbatim>\<open>return 1 / outputs.shape[0] * (outputs - targets)\<close>\<close>

definition SumOfSquaredDiffsError_grad :: "ndarray \<Rightarrow> ndarray \<Rightarrow> failure + ndarray" where
  "SumOfSquaredDiffsError_grad outputs targets =
     (case py_index (shape outputs) 0 of
        Inl e \<Rightarrow> Inl e
      | Inr n \<Rightarrow>
     (case py_truediv 1 (int n) of
        Inl e \<Rightarrow> Inl e
      | Inr r \<Rightarrow>
     (case np_subtract outputs targets of
        Inl e \<Rightarrow> Inl e
      | Inr diff \<Rightarrow> Inr (scalar_times r diff))))"


section \<open>mlp/initialisers.py\<close>

subsection \<open>numpy functions the initialisers call\<close>

text \<open>\<^verbatim>\<open>np.ones(shape=shape)\<close>: numpy rejects a negative dimension.\<close>

definition np_ones :: "int list \<Rightarrow> failure + ndarray" where
  "np_ones sh =
     (if \<exists>d\<in>set sh. d < 0 then Inl ValueError
      else Inr \<lparr>shape = map nat sh, data = replicate (prod_list (map nat sh)) 1\<rparr>)"

text \<open>An array times a Python number.\<close>

definition times_scalar :: "ndarray \<Rightarrow> real \<Rightarrow> ndarray" where
  "times_scalar a c = a\<lparr>data := map (\<lambda>x. x * c) (data a)\<rparr>"

text \<open>\<^verbatim>\<open>np.sqrt\<close> of a negative number is NaN; a float divided by \<open>0.0\<close> is an infinity or NaN.\<close>

definition np_sqrt :: "real \<Rightarrow> failure + real" where
  "np_sqrt x = (if x < 0 then Inl NonFinite else Inr (sqrt x))"

definition np_truediv :: "real \<Rightarrow> real \<Rightarrow> failure + real" where
  "np_truediv x y = (if y = 0 then Inl NonFinite else Inr (x / y))"

text \<open>
  \<^verbatim>\<open>np.random.RandomState\<close> belongs to numpy, not to this repository: the generator is a
  parameter of the model. \<open>'g\<close> is the generator's internal state; \<open>RandomState seed\<close> is
  the state of a freshly seeded generator; \<open>uniform\<close> and \<open>normal\<close> take the state, the
  two distribution parameters and \<^verbatim>\<open>size\<close>, and return the sampled array with the
  advanced state, or raise.
\<close>

record 'g numpy_random =
  RandomState :: "int \<Rightarrow> 'g"
  uniform :: "'g \<Rightarrow> real \<Rightarrow> real \<Rightarrow> int list \<Rightarrow> failure + ndarray \<times> 'g"
  normal :: "'g \<Rightarrow> real \<Rightarrow> real \<Rightarrow> int list \<Rightarrow> failure + ndarray \<times> 'g"

subsection \<open>Generator objects\<close>

text \<open>
  Generators are mutable objects and an initialiser holds a reference to one, which the
  caller may share between initialisers. The store lists the generator objects
  allocated so far; a reference is a position in it.
\<close>

type_synonym ref = nat
type_synonym 'g store = "'g list"

definition lookup :: "'g store \<Rightarrow> ref \<Rightarrow> 'g option" where
  "lookup h r = (if r < length h then Some (h ! r) else None)"

definition new :: "'g store \<Rightarrow> 'g \<Rightarrow> ref \<times> 'g store" where
  "new h g = (length h, h @ [g])"

text \<open>A sampler's result, with the generator's advanced state written back to the store.\<close>

definition advance :: "ref \<Rightarrow> 'g store \<Rightarrow> failure + ndarray \<times> 'g \<Rightarrow> failure + ndarray \<times> 'g store" where
  "advance r h res = (case res of Inl e \<Rightarrow> Inl e | Inr (a, g') \<Rightarrow> Inr (a, h[r := g']))"

subsection \<open>The classes\<close>

text \<open>
  The seven classes share one calling convention (\<^verbatim>\<open>init(shape)\<close>) and are used
  interchangeably by the layers, so an instance is a value of one datatype with a
  constructor per class, holding the attributes \<^verbatim>\<open>__init__\<close> sets.
\<close>

datatype initialiser =
    ConstantInit (val: real)
  | UniformInit (low: real) (high: real) (rng: ref)
  | NormalInit (mean: real) (std: real) (rng: ref)
  | SqrtInit (mean: real) (rng: ref)
  | XavierInit (rng: ref)
  | XavierInitNormal (mean: real) (rng: ref)
  | KaimingInit (mean: real) (rng: ref)

text \<open>
  \<^verbatim>\<open>if rng is None: rng = np.random.RandomState(DEFAULT_SEED)\<close>

  \<^verbatim>\<open>DEFAULT_SEED\<close> is imported from the package's \<^verbatim>\<open>__init__\<close>, which is not among the
  sources; it is a parameter.
\<close>

definition rng_or_default :: "'g numpy_random \<Rightarrow> int \<Rightarrow> ref option \<Rightarrow> 'g store \<Rightarrow> ref \<times> 'g store" where
  "rng_or_default G DEFAULT_SEED rng_arg h =
     (case rng_arg of None \<Rightarrow> new h (RandomState G DEFAULT_SEED) | Some r \<Rightarrow> (r, h))"

text \<open>
  The constructors. None of them has a \<^verbatim>\<open>raise\<close> or a check: each returns normally,
  which the result type records as \<open>Inr\<close>.
\<close>

definition ConstantInit_init :: "real \<Rightarrow> 'g store \<Rightarrow> failure + initialiser \<times> 'g store" where
  "ConstantInit_init v h = Inr (ConstantInit v, h)"

definition UniformInit_init ::
  "'g numpy_random \<Rightarrow> int \<Rightarrow> real \<Rightarrow> real \<Rightarrow> ref option \<Rightarrow> 'g store \<Rightarrow> failure + initialiser \<times> 'g store" where
  "UniformInit_init G DEFAULT_SEED lo hi rng_arg h =
     (let (r, h') = rng_or_default G DEFAULT_SEED rng_arg h in Inr (UniformInit lo hi r, h'))"

definition NormalInit_init ::
  "'g numpy_random \<Rightarrow> int \<Rightarrow> real \<Rightarrow> real \<Rightarrow> ref option \<Rightarrow> 'g store \<Rightarrow> failure + initialiser \<times> 'g store" where
  "NormalInit_init G DEFAULT_SEED m s rng_arg h =
     (let (r, h') = rng_or_default G DEFAULT_SEED rng_arg h in Inr (NormalInit m s r, h'))"

definition SqrtInit_init ::
  "'g numpy_random \<Rightarrow> int \<Rightarrow> ref option \<Rightarrow> 'g store \<Rightarrow> failure + initialiser \<times> 'g store" where
  "SqrtInit_init G DEFAULT_SEED rng_arg h =
     (let (r, h') = rng_or_default G DEFAULT_SEED rng_arg h in Inr (SqrtInit 0 r, h'))"

definition XavierInit_init ::
  "'g numpy_random \<Rightarrow> int \<Rightarrow> ref option \<Rightarrow> 'g store \<Rightarrow> failure + initialiser \<times> 'g store" where
  "XavierInit_init G DEFAULT_SEED rng_arg h =
     (let (r, h') = rng_or_default G DEFAULT_SEED rng_arg h in Inr (XavierInit r, h'))"

definition XavierInitNormal_init ::
  "'g numpy_random \<Rightarrow> int \<Rightarrow> ref option \<Rightarrow> 'g store \<Rightarrow> failure + initialiser \<times> 'g store" where
  "XavierInitNormal_init G DEFAULT_SEED rng_arg h =
     (let (r, h') = rng_or_default G DEFAULT_SEED rng_arg h in Inr (XavierInitNormal 0 r, h'))"

definition KaimingInit_init ::
  "'g numpy_random \<Rightarrow> int \<Rightarrow> ref option \<Rightarrow> 'g store \<Rightarrow> failure + initialiser \<times> 'g store" where
  "KaimingInit_init G DEFAULT_SEED rng_arg h =
     (let (r, h') = rng_or_default G DEFAULT_SEED rng_arg h in Inr (KaimingInit 0 r, h'))"

text \<open>
  The arguments the fan-in/fan-out classes compute from \<^verbatim>\<open>shape\<close>, each written as in
  its \<^verbatim>\<open>__call__\<close>.

  \<^verbatim>\<open>1/np.sqrt(shape[1])\<close>
\<close>

definition sqrt_scale :: "int list \<Rightarrow> failure + real" where
  "sqrt_scale sh =
     (case py_index sh 1 of
        Inl e \<Rightarrow> Inl e
      | Inr n \<Rightarrow>
     (case np_sqrt (real_of_int n) of
        Inl e \<Rightarrow> Inl e
      | Inr s \<Rightarrow> np_truediv 1 s))"

text \<open>\<^verbatim>\<open>np.sqrt(c / (shape[0] + shape[1]))\<close>, with \<open>c\<close> 6 (Xavier) or 2 (Xavier normal).\<close>

definition fan_sum_sqrt :: "int \<Rightarrow> int list \<Rightarrow> failure + real" where
  "fan_sum_sqrt c sh =
     (case py_index sh 0 of
        Inl e \<Rightarrow> Inl e
      | Inr m \<Rightarrow>
     (case py_index sh 1 of
        Inl e \<Rightarrow> Inl e
      | Inr n \<Rightarrow>
     (case py_truediv c (m + n) of
        Inl e \<Rightarrow> Inl e
      | Inr q \<Rightarrow> np_sqrt q)))"

text \<open>\<^verbatim>\<open>np.sqrt(2 / shape[1])\<close>\<close>

definition kaiming_scale :: "int list \<Rightarrow> failure + real" where
  "kaiming_scale sh =
     (case py_index sh 1 of
        Inl e \<Rightarrow> Inl e
      | Inr n \<Rightarrow>
     (case py_truediv 2 n of
        Inl e \<Rightarrow> Inl e
      | Inr q \<Rightarrow> np_sqrt q))"

text \<open>
  \<^verbatim>\<open>__call__\<close>, one equation per class. Python evaluates \<^verbatim>\<open>self.rng.uniform\<close> before the
  arguments, so a reference that names no generator fails first; then the arguments
  are evaluated in order, and the sampler runs last.
\<close>

fun call :: "'g numpy_random \<Rightarrow> initialiser \<Rightarrow> int list \<Rightarrow> 'g store \<Rightarrow> failure + ndarray \<times> 'g store" where
  "call G (ConstantInit v) sh h =
     (case np_ones sh of Inl e \<Rightarrow> Inl e | Inr a \<Rightarrow> Inr (times_scalar a v, h))"
| "call G (UniformInit lo hi r) sh h =
     (case lookup h r of
        None \<Rightarrow> Inl AttributeError
      | Some g \<Rightarrow> advance r h (uniform G g lo hi sh))"
| "call G (NormalInit m s r) sh h =
     (case lookup h r of
        None \<Rightarrow> Inl AttributeError
      | Some g \<Rightarrow> advance r h (normal G g m s sh))"
| "call G (SqrtInit m r) sh h =
     (case lookup h r of
        None \<Rightarrow> Inl AttributeError
      | Some g \<Rightarrow>
     (case sqrt_scale sh of
        Inl e \<Rightarrow> Inl e
      | Inr s \<Rightarrow> advance r h (normal G g m s sh)))"
| "call G (XavierInit r) sh h =
     (case lookup h r of
        None \<Rightarrow> Inl AttributeError
      | Some g \<Rightarrow>
     (case fan_sum_sqrt 6 sh of
        Inl e \<Rightarrow> Inl e
      | Inr lo \<Rightarrow>
     (case fan_sum_sqrt 6 sh of
        Inl e \<Rightarrow> Inl e
      | Inr hi \<Rightarrow> advance r h (uniform G g (- lo) hi sh))))"
| "call G (XavierInitNormal m r) sh h =
     (case lookup h r of
        None \<Rightarrow> Inl AttributeError
      | Some g \<Rightarrow>
     (case fan_sum_sqrt 2 sh of
        Inl e \<Rightarrow> Inl e
      | Inr s \<Rightarrow> advance r h (normal G g m s sh)))"
| "call G (KaimingInit m r) sh h =
     (case lookup h r of
        None \<Rightarrow> Inl AttributeError
      | Some g \<Rightarrow>
     (case kaiming_scale sh of
        Inl e \<Rightarrow> Inl e
      | Inr s \<Rightarrow> advance r h (normal G g m s sh)))"

text \<open>
  A caller's sequence of statements \<^verbatim>\<open>x(shape)\<close>, each on some instance, run in order;
  the first exception ends the run. The result lists the arrays returned.
\<close>

fun calls :: "'g numpy_random \<Rightarrow> (initialiser \<times> int list) list \<Rightarrow> 'g store \<Rightarrow> failure + ndarray list \<times> 'g store" where
  "calls G [] h = Inr ([], h)"
| "calls G ((x, sh) # cs) h =
     (case call G x sh h of
        Inl e \<Rightarrow> Inl e
      | Inr (a, h') \<Rightarrow>
     (case calls G cs h' of
        Inl e \<Rightarrow> Inl e
      | Inr (as, h'') \<Rightarrow> Inr (a # as, h'')))"

text \<open>The shapes requested of instance \<open>x\<close> in a run, and the arrays it returned.\<close>

definition requests :: "initialiser \<Rightarrow> (initialiser \<times> int list) list \<Rightarrow> int list list" where
  "requests x cs = map snd (filter (\<lambda>c. fst c = x) cs)"

definition returned :: "initialiser \<Rightarrow> (initialiser \<times> int list) list \<Rightarrow> ndarray list \<Rightarrow> ndarray list" where
  "returned x cs as = map snd (filter (\<lambda>p. fst (fst p) = x) (zip cs as))"

text \<open>
  What one call of a stochastic instance does to the generator it holds, read off the
  equations of \<open>call\<close> with the store taken away; \<open>replay\<close> runs a list of requests
  on one generator state. Both serve to reason about runs.
\<close>

fun draw :: "'g numpy_random \<Rightarrow> initialiser \<Rightarrow> int list \<Rightarrow> 'g \<Rightarrow> failure + ndarray \<times> 'g" where
  "draw G (ConstantInit v) sh g =
     (case np_ones sh of Inl e \<Rightarrow> Inl e | Inr a \<Rightarrow> Inr (times_scalar a v, g))"
| "draw G (UniformInit lo hi r) sh g = uniform G g lo hi sh"
| "draw G (NormalInit m s r) sh g = normal G g m s sh"
| "draw G (SqrtInit m r) sh g =
     (case sqrt_scale sh of Inl e \<Rightarrow> Inl e | Inr s \<Rightarrow> normal G g m s sh)"
| "draw G (XavierInit r) sh g =
     (case fan_sum_sqrt 6 sh of Inl e \<Rightarrow> Inl e | Inr lo \<Rightarrow> uniform G g (- lo) lo sh)"
| "draw G (XavierInitNormal m r) sh g =
     (case fan_sum_sqrt 2 sh of Inl e \<Rightarrow> Inl e | Inr s \<Rightarrow> normal G g m s sh)"
| "draw G (KaimingInit m r) sh g =
     (case kaiming_scale sh of Inl e \<Rightarrow> Inl e | Inr s \<Rightarrow> normal G g m s sh)"

fun replay :: "'g numpy_random \<Rightarrow> initialiser \<Rightarrow> int list list \<Rightarrow> 'g \<Rightarrow> failure + ndarray list \<times> 'g" where
  "replay G x [] g = Inr ([], g)"
| "replay G x (sh # shs) g =
     (case draw G x sh g of
        Inl e \<Rightarrow> Inl e
      | Inr (a, g') \<Rightarrow>
     (case replay G x shs g' of
        Inl e \<Rightarrow> Inl e
      | Inr (as, g'') \<Rightarrow> Inr (a # as, g'')))"

text \<open>The instances that hold a generator.\<close>

fun stochastic :: "initialiser \<Rightarrow> bool" where
  "stochastic (ConstantInit v) = False"
| "stochastic _ = True"

text \<open>
  The ways of constructing a stochastic initialiser without passing a generator:
  \<^verbatim>\<open>UniformInit(low, high)\<close>, \<^verbatim>\<open>NormalInit(mean, std)\<close>, \<^verbatim>\<open>SqrtInit()\<close>, \<^verbatim>\<open>XavierInit()\<close>,
  \<^verbatim>\<open>XavierInitNormal()\<close> and \<^verbatim>\<open>KaimingInit()\<close>.
\<close>

definition default_constructions ::
  "'g numpy_random \<Rightarrow> int \<Rightarrow> ('g store \<Rightarrow> failure + initialiser \<times> 'g store) set" where
  "default_constructions G DEFAULT_SEED =
     {UniformInit_init G DEFAULT_SEED lo hi None | lo hi. True} \<union>
     {NormalInit_init G DEFAULT_SEED m s None | m s. True} \<union>
     {SqrtInit_init G DEFAULT_SEED None, XavierInit_init G DEFAULT_SEED None,
      XavierInitNormal_init G DEFAULT_SEED None, KaimingInit_init G DEFAULT_SEED None}"

subsection \<open>What is assumed of numpy's uniform sampler\<close>


subsection \<open>A concrete generator\<close>

text \<open>
  A small linear congruential generator with the interface of \<open>numpy_random\<close>. It
  stands in for numpy's Mersenne Twister wherever a theorem is instantiated at concrete
  inputs; no theorem about the program depends on it.
\<close>

definition lcg_step :: "nat \<Rightarrow> nat" where
  "lcg_step s = (5 * s + 3) mod 16"

fun lcg_draws :: "nat \<Rightarrow> nat \<Rightarrow> real list \<times> nat" where
  "lcg_draws 0 s = ([], s)"
| "lcg_draws (Suc n) s = (let (us, s') = lcg_draws n (lcg_step s) in (real (s mod 16) / 16 # us, s'))"

definition lcg_sample :: "(real \<Rightarrow> real) \<Rightarrow> nat \<Rightarrow> int list \<Rightarrow> failure + ndarray \<times> nat" where
  "lcg_sample f s sz =
     (if \<exists>d\<in>set sz. d < 0 then Inl ValueError
      else let (us, s') = lcg_draws (prod_list (map nat sz)) s
           in Inr (\<lparr>shape = map nat sz, data = map f us\<rparr>, s'))"

definition lcg_random :: "nat numpy_random" where
  "lcg_random =
     \<lparr>RandomState = (\<lambda>seed. nat (seed mod 16)),
      uniform = (\<lambda>g lo hi. lcg_sample (\<lambda>u. lo + (hi - lo) * u) g),
      normal = (\<lambda>g loc scale sz.
        if scale < 0 then Inl ValueError else lcg_sample (\<lambda>u. loc + scale * (2 * u - 1)) g sz)\<rparr>"

section \<open>Properties of the error function\<close>

subsection \<open>Arrays of one shape subtract element by element\<close>

lemma broadcast_rev_same: "broadcast_rev xs xs = Some xs"
  by (induction xs) auto

lemma broadcast_shapes_same: "broadcast_shapes s s = Some s"
  by (simp add: broadcast_shapes_def broadcast_rev_same)

lemma concat_chunks: "length xs = n * k \<Longrightarrow> concat (chunks n k xs) = xs"
  by (induction n arbitrary: xs) auto

lemma chunks_length: "length xs = n * k \<Longrightarrow> ys \<in> set (chunks n k xs) \<Longrightarrow> length ys = k"
proof (induction n arbitrary: xs)
  case 0
  then show ?case by simp
next
  case (Suc n)
  have len: "length (drop k xs) = n * k" using Suc.prems(1) by simp
  from Suc.prems(2) have "ys = take k xs \<or> ys \<in> set (chunks n k (drop k xs))" by simp
  then show ?case
  proof
    assume "ys = take k xs"
    then show ?thesis using Suc.prems(1) by simp
  next
    assume "ys \<in> set (chunks n k (drop k xs))"
    then show ?thesis by (rule Suc.IH[OF len])
  qed
qed

lemma stretch_same: "length xs = prod_list s \<Longrightarrow> stretch s s xs = xs"
proof (induction s arbitrary: xs)
  case Nil
  then show ?case by simp
next
  case (Cons n s)
  have "map (stretch s s) (chunks n (prod_list s) xs) = chunks n (prod_list s) xs"
    using Cons by (intro map_idI) (auto dest: chunks_length)
  then show ?case using Cons.prems by (simp add: concat_chunks)
qed

lemma broadcast_to_same: "wf_array a \<Longrightarrow> broadcast_to (shape a) a = data a"
  by (simp add: broadcast_to_def wf_array_def stretch_same)

lemma np_subtract_same:
  "wf_array a \<Longrightarrow> wf_array b \<Longrightarrow> shape a = shape b \<Longrightarrow>
   np_subtract a b = Inr \<lparr>shape = shape a, data = map2 (-) (data a) (data b)\<rparr>"
  using broadcast_to_same[of a] broadcast_to_same[of b]
  by (simp add: np_subtract_def broadcast_shapes_same)

lemma sum_list_map2_nth:
  "length xs = length ys \<Longrightarrow> sum_list (map2 f xs ys) = (\<Sum>k<length xs. f (xs ! k) (ys ! k))"
  by (simp add: sum_list_sum_nth atLeast0LessThan)


lemma flat_index_less: "i < b \<Longrightarrow> j < d \<Longrightarrow> i * d + j < b * (d::nat)"
proof -
  assume "i < b" "j < d"
  then have "i * d + j < i * d + d" by simp
  also have "\<dots> = Suc i * d" by simp
  also have "\<dots> \<le> b * d" using \<open>i < b\<close> by (intro mult_le_mono1) simp
  finally show ?thesis .
qed

text \<open>The error of two well-formed arrays of one shape, over the flat buffers.\<close>

lemma call_flat:
  assumes "wf_array outputs" "wf_array targets" "shape outputs = n # s" "shape targets = n # s" "1 \<le> n"
  shows "SumOfSquaredDiffsError_call outputs targets =
     Inr (1 / real n * 0.5 * (\<Sum>k<length (data outputs). (data outputs ! k - data targets ! k)\<^sup>2))"
proof -
  have len: "length (data outputs) = length (data targets)"
    using assms by (simp add: wf_array_def)
  have sub: "np_subtract outputs targets =
      Inr \<lparr>shape = n # s, data = map2 (-) (data outputs) (data targets)\<rparr>"
    using np_subtract_same[of outputs targets] assms by simp
  have "np_sum (np_square \<lparr>shape = n # s, data = map2 (-) (data outputs) (data targets)\<rparr>)
      = sum_list (map2 (\<lambda>x y. (x - y)\<^sup>2) (data outputs) (data targets))"
    by (simp add: np_sum_def np_square_def power2_eq_square map_zip_map2 comp_def split_def zip_map_map)
  also have "\<dots> = (\<Sum>k<length (data outputs). (data outputs ! k - data targets ! k)\<^sup>2)"
    using len by (simp add: sum_list_map2_nth)
  finally show ?thesis
    using assms(3,5) sub by (simp add: SumOfSquaredDiffsError_call_def py_index_def py_truediv_def)
qed




subsection \<open>The gradient is the derivative of the error\<close>











subsection \<open>Sign of the error in exact arithmetic\<close>

text \<open>
  With real-valued elements the error of two well-formed arrays of one shape is never
  negative and vanishes for equal arrays only. The statement is about exact arithmetic:
  a \<^verbatim>\<open>float64\<close> square can underflow to zero, and NaN is neither equal to itself nor
  ordered.
\<close>

lemma call_exact_nonneg_zero_iff:
  assumes wfo: "wf_array outputs" and wft: "wf_array targets"
    and so: "shape outputs = n # s" and st: "shape targets = n # s" and n: "1 \<le> n"
  shows "\<exists>v. SumOfSquaredDiffsError_call outputs targets = Inr v \<and> 0 \<le> v \<and>
             (v = 0 \<longleftrightarrow> outputs = targets)"
proof -
  define S where "S = (\<Sum>k<length (data outputs). (data outputs ! k - data targets ! k)\<^sup>2)"
  have len: "length (data outputs) = length (data targets)"
    using wfo wft so st by (simp add: wf_array_def)
  have call: "SumOfSquaredDiffsError_call outputs targets = Inr (1 / real n * 0.5 * S)"
    unfolding S_def by (rule call_flat[OF wfo wft so st n])
  have S0: "0 \<le> S" unfolding S_def by (rule sum_nonneg) simp
  have "S = 0 \<longleftrightarrow> (\<forall>k<length (data outputs). data outputs ! k = data targets ! k)"
    unfolding S_def by (subst sum_nonneg_eq_0_iff) auto
  also have "\<dots> \<longleftrightarrow> data outputs = data targets"
    using len by (auto intro: nth_equalityI)
  also have "\<dots> \<longleftrightarrow> outputs = targets"
    using so st by (auto intro: ndarray.equality)
  finally have Siff: "S = 0 \<longleftrightarrow> outputs = targets" .
  have "0 \<le> 1 / real n * 0.5 * S" using S0 by simp
  moreover have "1 / real n * 0.5 * S = 0 \<longleftrightarrow> outputs = targets"
    using n Siff by simp
  ultimately show ?thesis using call by blast
qed

subsection \<open>Arrays of different shapes\<close>

lemma index0: "py_index (n # s) 0 = Inr n"
  by (simp add: py_index_def)

lemma truediv1: "1 \<le> n \<Longrightarrow> py_truediv 1 (int n) = Inr (1 / real n)"
  by (simp add: py_truediv_def)

text \<open>
  Against claim C4 as stated: \<open>outputs\<close> of shape \<open>(2, 2)\<close> and \<open>targets\<close> of shape
  \<open>(1, 2)\<close> differ in shape, and both \<^verbatim>\<open>__call__\<close> and \<^verbatim>\<open>grad\<close> return a value, the single
  row of \<open>targets\<close> having been broadcast over the batch.
\<close>

theorem shape_mismatch_broadcasts_counterexample:
  "shape \<lparr>shape = [2, 2], data = [1, 2, 3, 4]\<rparr> \<noteq> shape \<lparr>shape = [1, 2], data = [1, 1]\<rparr> \<and>
   SumOfSquaredDiffsError_call \<lparr>shape = [2, 2], data = [1, 2, 3, 4]\<rparr> \<lparr>shape = [1, 2], data = [1, 1]\<rparr>
     = Inr (7 / 2) \<and>
   SumOfSquaredDiffsError_grad \<lparr>shape = [2, 2], data = [1, 2, 3, 4]\<rparr> \<lparr>shape = [1, 2], data = [1, 1]\<rparr>
     = Inr \<lparr>shape = [2, 2], data = [0, 1 / 2, 1, 3 / 2]\<rparr>"
  by (simp add: SumOfSquaredDiffsError_call_def SumOfSquaredDiffsError_grad_def py_index_def
      py_truediv_def np_subtract_def broadcast_shapes_def broadcast_to_def np_sum_def np_square_def
      scalar_times_def eval_nat_numeral)

text \<open>
  Claim C4, amended. For \<open>outputs\<close> with \<open>batch_size = shape[0] \<ge> 1\<close> and \<open>targets\<close> of
  another shape: when the two shapes are not broadcast-compatible, \<^verbatim>\<open>__call__\<close> and
  \<^verbatim>\<open>grad\<close> fail with numpy's \<^verbatim>\<open>ValueError\<close>; when they are, both return a value, the
  gradient having the broadcast shape.
\<close>

theorem shape_mismatch_fails_unless_broadcastable:
  "shape outputs = n # s \<and> 1 \<le> n \<and> shape outputs \<noteq> shape targets \<longrightarrow>
   (broadcast_shapes (shape outputs) (shape targets) = None \<longrightarrow>
      SumOfSquaredDiffsError_call outputs targets = Inl ValueError \<and>
      SumOfSquaredDiffsError_grad outputs targets = Inl ValueError) \<and>
   (\<forall>u. broadcast_shapes (shape outputs) (shape targets) = Some u \<longrightarrow>
      (\<exists>v. SumOfSquaredDiffsError_call outputs targets = Inr v) \<and>
      (\<exists>g. SumOfSquaredDiffsError_grad outputs targets = Inr g \<and> shape g = u))"
proof (intro impI, elim conjE)
  assume so: "shape outputs = n # s" and n: "1 \<le> n"
  have i: "py_index (shape outputs) 0 = Inr n" unfolding so by (rule index0)
  note d = truediv1[OF n]
  show "(broadcast_shapes (shape outputs) (shape targets) = None \<longrightarrow>
      SumOfSquaredDiffsError_call outputs targets = Inl ValueError \<and>
      SumOfSquaredDiffsError_grad outputs targets = Inl ValueError) \<and>
   (\<forall>u. broadcast_shapes (shape outputs) (shape targets) = Some u \<longrightarrow>
      (\<exists>v. SumOfSquaredDiffsError_call outputs targets = Inr v) \<and>
      (\<exists>g. SumOfSquaredDiffsError_grad outputs targets = Inr g \<and> shape g = u))"
    by (simp add: SumOfSquaredDiffsError_call_def SumOfSquaredDiffsError_grad_def i d
        np_subtract_def scalar_times_def)
qed

theorem shape_mismatch_fails_unless_broadcastable_witness:
  "shape \<lparr>shape = [2, 2], data = [1, 2, 3, 4]\<rparr> = 2 # [2] \<and> (1::nat) \<le> 2 \<and>
   shape \<lparr>shape = [2, 2], data = [1, 2, 3, 4]\<rparr> \<noteq> shape \<lparr>shape = [1, 2], data = [1, 1]\<rparr> \<and>
   broadcast_shapes [2, 2] [1, 2] = Some [2, 2] \<and>
   (\<exists>v. SumOfSquaredDiffsError_call \<lparr>shape = [2, 2], data = [1, 2, 3, 4]\<rparr>
          \<lparr>shape = [1, 2], data = [1, 1]\<rparr> = Inr v) \<and>
   (\<exists>g. SumOfSquaredDiffsError_grad \<lparr>shape = [2, 2], data = [1, 2, 3, 4]\<rparr>
          \<lparr>shape = [1, 2], data = [1, 1]\<rparr> = Inr g \<and> shape g = [2, 2]) \<and>
   shape \<lparr>shape = [2, 2], data = [1, 2, 3, 4]\<rparr> \<noteq> shape \<lparr>shape = [3, 2], data = [1, 1, 1, 1, 1, 1]\<rparr> \<and>
   broadcast_shapes [2, 2] [3, 2] = None \<and>
   SumOfSquaredDiffsError_call \<lparr>shape = [2, 2], data = [1, 2, 3, 4]\<rparr>
      \<lparr>shape = [3, 2], data = [1, 1, 1, 1, 1, 1]\<rparr> = Inl ValueError \<and>
   SumOfSquaredDiffsError_grad \<lparr>shape = [2, 2], data = [1, 2, 3, 4]\<rparr>
      \<lparr>shape = [3, 2], data = [1, 1, 1, 1, 1, 1]\<rparr> = Inl ValueError"
proof -
  let ?o = "\<lparr>shape = [2, 2], data = [1, 2, 3, 4]\<rparr>"
  let ?t = "\<lparr>shape = [1, 2], data = [1, 1]\<rparr>"
  let ?t' = "\<lparr>shape = [3, 2], data = [1, 1, 1, 1, 1, 1]\<rparr>"
  have b: "broadcast_shapes [2, 2] [1, 2] = Some [2, 2]" "broadcast_shapes [2, 2] [3, 2] = None"
    by (simp_all add: broadcast_shapes_def)
  have h: "shape ?o = 2 # [2] \<and> (1::nat) \<le> 2 \<and> shape ?o \<noteq> shape ?t" by simp
  have h': "shape ?o = 2 # [2] \<and> (1::nat) \<le> 2 \<and> shape ?o \<noteq> shape ?t'" by simp
  from shape_mismatch_fails_unless_broadcastable[of ?o 2 "[2]" ?t, THEN mp, OF h] b(1)
  have 1: "(\<exists>v. SumOfSquaredDiffsError_call ?o ?t = Inr v) \<and>
      (\<exists>g. SumOfSquaredDiffsError_grad ?o ?t = Inr g \<and> shape g = [2, 2])"
    by simp
  from shape_mismatch_fails_unless_broadcastable[of ?o 2 "[2]" ?t', THEN mp, OF h'] b(2)
  have 2: "SumOfSquaredDiffsError_call ?o ?t' = Inl ValueError \<and>
      SumOfSquaredDiffsError_grad ?o ?t' = Inl ValueError"
    by simp
  from h h' b 1 2 show ?thesis by simp
qed

section \<open>Properties of the initialisers\<close>

lemma np_ones_nonneg:
  "\<forall>d\<in>set sh. 0 \<le> d \<Longrightarrow>
   np_ones sh = Inr \<lparr>shape = map nat sh, data = replicate (prod_list (map nat sh)) 1\<rparr>"
  by (auto simp: np_ones_def)

lemma at2_replicate:
  assumes "shape a = [r, c]" "data a = replicate (r * c) v" "i < r" "j < c"
  shows "at2 a i j = v"
  using flat_index_less[OF assms(3,4)] assms(1,2) by (simp add: at2_def)

text \<open>
  Claim C3. For a shape \<open>(m, n)\<close> of positive integers and any value,
  \<^verbatim>\<open>ConstantInit(value)(shape)\<close> returns an array of exactly that shape in which every
  element equals the value; the store of generators is left as it was.
\<close>

theorem ConstantInit_call_fills:
  "0 < m \<and> 0 < n \<and> ConstantInit_init v h0 = Inr (self, h) \<longrightarrow>
   (\<exists>a. call G self [m, n] h = Inr (a, h) \<and> shape a = [nat m, nat n] \<and>
        data a = replicate (nat m * nat n) v \<and>
        (\<forall>i<nat m. \<forall>j<nat n. at2 a i j = v))"
proof (intro impI, elim conjE)
  assume m: "0 < m" and n: "0 < n" and c: "ConstantInit_init v h0 = Inr (self, h)"
  define a where "a = \<lparr>shape = [nat m, nat n], data = replicate (nat m * nat n) v\<rparr>"
  have self: "self = ConstantInit v" using c by (simp add: ConstantInit_init_def)
  have "np_ones [m, n] = Inr \<lparr>shape = map nat [m, n], data = replicate (prod_list (map nat [m, n])) 1\<rparr>"
    using m n by (intro np_ones_nonneg) simp
  then have call: "call G self [m, n] h = Inr (a, h)"
    by (simp add: self a_def times_scalar_def)
  have el: "at2 a i j = v" if "i < nat m" "j < nat n" for i j
    using that by (intro at2_replicate[of a "nat m" "nat n"]) (simp_all add: a_def)
  show "\<exists>a. call G self [m, n] h = Inr (a, h) \<and> shape a = [nat m, nat n] \<and>
        data a = replicate (nat m * nat n) v \<and>
        (\<forall>i<nat m. \<forall>j<nat n. at2 a i j = v)"
    using call el by (intro exI[of _ a]) (simp add: a_def)
qed

theorem ConstantInit_call_fills_witness:
  "(0::int) < 4 \<and> (0::int) < 5 \<and> ConstantInit_init 3 ([] :: nat store) = Inr (ConstantInit 3, []) \<and>
   (\<exists>a. call lcg_random (ConstantInit 3) [4, 5] [] = Inr (a, []) \<and> shape a = [4, 5] \<and>
        data a = replicate 20 3 \<and> at2 a 3 4 = 3)"
proof -
  have h: "(0::int) < 4 \<and> (0::int) < 5 \<and>
      ConstantInit_init 3 ([] :: nat store) = Inr (ConstantInit 3, [])"
    by (simp add: ConstantInit_init_def)
  from ConstantInit_call_fills[of 4 5 3 "[]" "ConstantInit 3" "[]" lcg_random, THEN mp, OF h]
  obtain a where a: "call lcg_random (ConstantInit 3) [4, 5] [] = Inr (a, [])"
    "shape a = [nat 4, nat 5]" "data a = replicate (nat 4 * nat 5) 3"
    "\<forall>i<nat 4. \<forall>j<nat 5. at2 a i j = 3"
    by (elim exE conjE)
  from a(4) have "at2 a 3 4 = 3" by simp
  with h a(1,2,3) show ?thesis by simp
qed

text \<open>
  Against claim C5 as stated: on the one-dimensional shape \<open>(3,)\<close>, \<^verbatim>\<open>SqrtInit()\<close> and
  \<^verbatim>\<open>KaimingInit()\<close> raise \<^verbatim>\<open>IndexError\<close>, the indexing fault of \<^verbatim>\<open>shape[1]\<close>; the code has
  no error of its own for the arity of a shape.
\<close>

theorem one_dim_shape_IndexError_counterexample:
  "SqrtInit_init lcg_random 7 None [] = Inr (SqrtInit 0 0, [7]) \<and>
   call lcg_random (SqrtInit 0 0) [3] [7] = Inl IndexError \<and>
   KaimingInit_init lcg_random 7 None [] = Inr (KaimingInit 0 0, [7]) \<and>
   call lcg_random (KaimingInit 0 0) [3] [7] = Inl IndexError"
  by (simp add: SqrtInit_init_def KaimingInit_init_def rng_or_default_def new_def lcg_random_def
      lookup_def sqrt_scale_def kaiming_scale_def py_index_def)

text \<open>
  Claim C5, amended. For every one-dimensional shape \<open>(n,)\<close>, the call of a \<^verbatim>\<open>SqrtInit\<close>,
  \<^verbatim>\<open>XavierInit\<close>, \<^verbatim>\<open>XavierInitNormal\<close> or \<^verbatim>\<open>KaimingInit\<close> instance that holds a generator
  fails with Python's \<^verbatim>\<open>IndexError\<close>, raised by \<^verbatim>\<open>shape[1]\<close> before the generator is used.
\<close>

theorem one_dim_shape_raises_IndexError:
  "lookup h r = Some g \<longrightarrow>
   call G (SqrtInit m r) [n] h = Inl IndexError \<and>
   call G (XavierInit r) [n] h = Inl IndexError \<and>
   call G (XavierInitNormal m r) [n] h = Inl IndexError \<and>
   call G (KaimingInit m r) [n] h = Inl IndexError"
  by (simp add: sqrt_scale_def fan_sum_sqrt_def kaiming_scale_def py_index_def)

theorem one_dim_shape_raises_IndexError_witness:
  "lookup [7] 0 = Some (7::nat) \<and>
   call lcg_random (SqrtInit 0 0) [3] [7] = Inl IndexError \<and>
   call lcg_random (XavierInit 0) [3] [7] = Inl IndexError \<and>
   call lcg_random (XavierInitNormal 0 0) [3] [7] = Inl IndexError \<and>
   call lcg_random (KaimingInit 0 0) [3] [7] = Inl IndexError"
proof -
  have h: "lookup [7] 0 = Some (7::nat)" by (simp add: lookup_def)
  from one_dim_shape_raises_IndexError[of "[7]" 0 7 lcg_random 0 3, THEN mp, OF h] h show ?thesis by simp
qed

text \<open>
  Against claim C9 as stated: \<^verbatim>\<open>UniformInit(low=1, high=0)\<close> and
  \<^verbatim>\<open>NormalInit(mean=0, std=-1)\<close> construct normally.
\<close>

theorem invalid_parameters_construct_counterexample:
  "(0::real) < 1 \<and> (- 1::real) \<le> 0 \<and>
   UniformInit_init lcg_random 7 1 0 None [] = Inr (UniformInit 1 0 0, [7]) \<and>
   NormalInit_init lcg_random 7 0 (- 1) None [] = Inr (NormalInit 0 (- 1) 0, [7])"
  by (simp add: UniformInit_init_def NormalInit_init_def rng_or_default_def new_def lcg_random_def)

text \<open>
  Claim C9, amended. Constructing a \<^verbatim>\<open>UniformInit\<close> or a \<^verbatim>\<open>NormalInit\<close> never fails: for
  any \<open>low\<close> and \<open>high\<close> (also \<open>low > high\<close>) and any \<open>mean\<close> and \<open>std\<close> (also
  \<open>std \<le> 0\<close>) the constructor returns an instance that stores the parameters as given.
\<close>

theorem constructors_store_parameters_unchecked:
  "(\<exists>self h'. UniformInit_init G DEFAULT_SEED lo hi rng_arg h = Inr (self, h') \<and>
       low self = lo \<and> high self = hi) \<and>
   (\<exists>self h'. NormalInit_init G DEFAULT_SEED m s rng_arg h = Inr (self, h') \<and>
       mean self = m \<and> std self = s)"
  by (simp add: UniformInit_init_def NormalInit_init_def split_def Let_def)




subsection \<open>The concrete generator meets the uniform contract\<close>







subsection \<open>Instances with generators of their own\<close>

lemma lookup_update_same: "lookup h r = Some g \<Longrightarrow> lookup (h[r := g']) r = Some g'"
  by (simp add: lookup_def split: if_splits)

lemma lookup_update_other: "r' \<noteq> r \<Longrightarrow> lookup (h[r' := g']) r = lookup h r"
  by (simp add: lookup_def)

lemma call_draw:
  "stochastic x \<Longrightarrow> lookup h (rng x) = Some g \<Longrightarrow>
   call G x sh h = advance (rng x) h (draw G x sh g)"
  by (cases x) (simp_all add: advance_def split: sum.splits)

lemma call_stores:
  assumes "stochastic x" "lookup h (rng x) = Some g" "call G x sh h = Inr (a, h')"
  shows "\<exists>g'. draw G x sh g = Inr (a, g') \<and> h' = h[rng x := g']"
  using assms(3) unfolding call_draw[OF assms(1,2)]
  by (auto simp: advance_def split: sum.splits)

lemma call_frame:
  assumes "call G y sh h = Inr (a, h')" "\<not> stochastic y \<or> rng y \<noteq> r"
  shows "lookup h' r = lookup h r"
proof (cases "stochastic y")
  case False
  then obtain v where "y = ConstantInit v" by (cases y) simp_all
  with assms(1) show ?thesis by (auto split: sum.splits)
next
  case True
  with assms(2) have ne: "rng y \<noteq> r" by simp
  from assms(1) obtain g where g: "lookup h (rng y) = Some g"
    using True by (cases y) (auto split: option.splits)
  from call_stores[OF True g assms(1)] obtain g' where "h' = h[rng y := g']" by blast
  then show ?thesis using ne by (simp add: lookup_update_other)
qed

lemma calls_Cons_Inr:
  assumes "calls G ((y, sh) # cs) h = Inr (as, h')"
  obtains a h1 as1 where "call G y sh h = Inr (a, h1)" "calls G cs h1 = Inr (as1, h')" "as = a # as1"
  using assms by (auto split: sum.splits)

lemma requests_Cons:
  "requests x ((y, sh) # cs) = (if y = x then sh # requests x cs else requests x cs)"
  by (simp add: requests_def)

lemma returned_Cons:
  "returned x ((y, sh) # cs) (a # as) = (if y = x then a # returned x cs as else returned x cs as)"
  by (simp add: returned_def)

text \<open>
  In a run that succeeds, what an instance returns is the replay of its own requests on
  the state its generator had at the start, whatever the other calls of the run did,
  as long as none of them went through the same generator.
\<close>

lemma calls_replay:
  assumes "stochastic x"
    and "\<forall>c\<in>set cs. fst c = x \<or> \<not> stochastic (fst c) \<or> rng (fst c) \<noteq> rng x"
    and "lookup h (rng x) = Some g"
    and "calls G cs h = Inr (as, h')"
  shows "\<exists>g'. replay G x (requests x cs) g = Inr (returned x cs as, g') \<and>
              lookup h' (rng x) = Some g'"
  using assms(2-)
proof (induction cs arbitrary: h g as)
  case Nil
  then show ?case by (simp add: requests_def returned_def)
next
  case (Cons c cs)
  obtain y sh where c: "c = (y, sh)" by (cases c)
  from Cons.prems(3) obtain a h1 as1 where
    call: "call G y sh h = Inr (a, h1)" and rest: "calls G cs h1 = Inr (as1, h')" and
    as: "as = a # as1"
    unfolding c by (rule calls_Cons_Inr)
  have others: "\<forall>c\<in>set cs. fst c = x \<or> \<not> stochastic (fst c) \<or> rng (fst c) \<noteq> rng x"
    using Cons.prems(1) by simp
  show ?case
  proof (cases "y = x")
    case True
    from call_stores[OF assms(1) Cons.prems(2) call[unfolded True]] obtain g1 where
      d: "draw G x sh g = Inr (a, g1)" and h1: "h1 = h[rng x := g1]" by blast
    have "lookup h1 (rng x) = Some g1"
      unfolding h1 using Cons.prems(2) by (rule lookup_update_same)
    from Cons.IH[OF others this rest] obtain g' where
      "replay G x (requests x cs) g1 = Inr (returned x cs as1, g')" "lookup h' (rng x) = Some g'"
      by blast
    then show ?thesis
      by (simp add: c as True requests_Cons returned_Cons d)
  next
    case False
    have "\<not> stochastic y \<or> rng y \<noteq> rng x"
      using Cons.prems(1) False by (simp add: c)
    from call_frame[OF call this] have "lookup h1 (rng x) = Some g"
      using Cons.prems(2) by simp
    from Cons.IH[OF others this rest] show ?thesis
      by (simp add: c as False requests_Cons returned_Cons)
  qed
qed

lemma replay_cong: "draw G a = draw G b \<Longrightarrow> replay G a shs g = replay G b shs g"
  by (induction shs arbitrary: g) (simp_all split: sum.splits)

lemma default_construction:
  assumes "k \<in> default_constructions G DEFAULT_SEED" "k h = Inr (a, h')"
  shows "stochastic a \<and> rng a = length h \<and> h' = h @ [RandomState G DEFAULT_SEED]"
  using assms
  by (auto simp: default_constructions_def UniformInit_init_def NormalInit_init_def SqrtInit_init_def
      XavierInit_init_def XavierInitNormal_init_def KaimingInit_init_def rng_or_default_def new_def)

lemma default_construction_same_draw:
  assumes "k \<in> default_constructions G DEFAULT_SEED" "k h = Inr (a, h')" "k h1 = Inr (b, h1')"
  shows "draw G a = draw G b"
  using assms
  by (auto simp: default_constructions_def UniformInit_init_def NormalInit_init_def SqrtInit_init_def
      XavierInit_init_def XavierInitNormal_init_def KaimingInit_init_def rng_or_default_def new_def
      fun_eq_iff)

text \<open>
  Claim C6. Let \<open>a\<close> and \<open>b\<close> be two instances built one after the other by the same
  constructor call without a generator (\<^verbatim>\<open>UniformInit(low, high)\<close> with the same bounds, or
  any of the other five stochastic classes). Each holds a generator of its own, freshly
  seeded with \<^verbatim>\<open>DEFAULT_SEED\<close>. In every run of calls on \<open>a\<close> and \<open>b\<close>, in any
  interleaving, that asks both for the same sequence of shapes and raises no exception,
  the arrays returned by \<open>a\<close> are, one by one, the arrays returned by \<open>b\<close>.
\<close>

theorem default_initialisers_reproducible:
  "k \<in> default_constructions G DEFAULT_SEED \<and> k h0 = Inr (a, h1) \<and> k h1 = Inr (b, h2) \<and>
   fst ` set cs \<subseteq> {a, b} \<and> requests a cs = requests b cs \<and> calls G cs h2 = Inr (as, h3) \<longrightarrow>
   rng a \<noteq> rng b \<and>
   lookup h2 (rng a) = Some (RandomState G DEFAULT_SEED) \<and>
   lookup h2 (rng b) = Some (RandomState G DEFAULT_SEED) \<and>
   returned a cs as = returned b cs as"
proof (intro impI, elim conjE)
  assume k: "k \<in> default_constructions G DEFAULT_SEED"
    and ka: "k h0 = Inr (a, h1)" and kb: "k h1 = Inr (b, h2)"
    and cs: "fst ` set cs \<subseteq> {a, b}" and req: "requests a cs = requests b cs"
    and run: "calls G cs h2 = Inr (as, h3)"
  let ?s = "RandomState G DEFAULT_SEED"
  from default_construction[OF k ka] have a: "stochastic a" "rng a = length h0" "h1 = h0 @ [?s]"
    by simp_all
  from default_construction[OF k kb] have b: "stochastic b" "rng b = length h1" "h2 = h1 @ [?s]"
    by simp_all
  have ne: "rng a \<noteq> rng b" using a b by simp
  have la: "lookup h2 (rng a) = Some ?s" and lb: "lookup h2 (rng b) = Some ?s"
    using a b by (simp_all add: lookup_def nth_append)
  have oa: "\<forall>c\<in>set cs. fst c = a \<or> \<not> stochastic (fst c) \<or> rng (fst c) \<noteq> rng a"
    using cs ne by auto
  have ob: "\<forall>c\<in>set cs. fst c = b \<or> \<not> stochastic (fst c) \<or> rng (fst c) \<noteq> rng b"
    using cs ne by auto
  from calls_replay[OF a(1) oa la run] obtain ga where
    ra: "replay G a (requests a cs) ?s = Inr (returned a cs as, ga)" by blast
  from calls_replay[OF b(1) ob lb run] obtain gb where
    rb: "replay G b (requests b cs) ?s = Inr (returned b cs as, gb)" by blast
  have "replay G a (requests a cs) ?s = replay G b (requests b cs) ?s"
    unfolding req by (rule replay_cong[OF default_construction_same_draw[OF k ka kb]])
  with ra rb have "returned a cs as = returned b cs as" by simp
  with ne la lb show "rng a \<noteq> rng b \<and>
   lookup h2 (rng a) = Some (RandomState G DEFAULT_SEED) \<and>
   lookup h2 (rng b) = Some (RandomState G DEFAULT_SEED) \<and>
   returned a cs as = returned b cs as" by simp
qed

theorem default_initialisers_reproducible_witness:
  "(UniformInit_init lcg_random 7 0 1 None \<in> default_constructions lcg_random 7 \<and>
    UniformInit_init lcg_random 7 0 1 None [] = Inr (UniformInit 0 1 0, [7]) \<and>
    UniformInit_init lcg_random 7 0 1 None [7] = Inr (UniformInit 0 1 1, [7, 7]) \<and>
    fst ` set [(UniformInit 0 1 0, [2]), (UniformInit 0 1 1, [2]), (UniformInit 0 1 1, [1]),
               (UniformInit 0 1 0, [1])] \<subseteq> {UniformInit 0 1 0, UniformInit 0 1 1} \<and>
    requests (UniformInit 0 1 0)
      [(UniformInit 0 1 0, [2]), (UniformInit 0 1 1, [2]), (UniformInit 0 1 1, [1]),
       (UniformInit 0 1 0, [1])] =
    requests (UniformInit 0 1 1)
      [(UniformInit 0 1 0, [2]), (UniformInit 0 1 1, [2]), (UniformInit 0 1 1, [1]),
       (UniformInit 0 1 0, [1])] \<and>
    calls lcg_random
      [(UniformInit 0 1 0, [2]), (UniformInit 0 1 1, [2]), (UniformInit 0 1 1, [1]),
       (UniformInit 0 1 0, [1])] [7, 7] =
    Inr ([\<lparr>shape = [2], data = [7 / 16, 6 / 16]\<rparr>, \<lparr>shape = [2], data = [7 / 16, 6 / 16]\<rparr>,
          \<lparr>shape = [1], data = [1 / 16]\<rparr>, \<lparr>shape = [1], data = [1 / 16]\<rparr>], [8, 8])) \<and>
   rng (UniformInit 0 1 0) \<noteq> rng (UniformInit 0 1 1) \<and>
   lookup [7, 7] (rng (UniformInit 0 1 0)) = Some (RandomState lcg_random 7) \<and>
   lookup [7, 7] (rng (UniformInit 0 1 1)) = Some (RandomState lcg_random 7) \<and>
   returned (UniformInit 0 1 0)
     [(UniformInit 0 1 0, [2]), (UniformInit 0 1 1, [2]), (UniformInit 0 1 1, [1]),
      (UniformInit 0 1 0, [1])]
     [\<lparr>shape = [2], data = [7 / 16, 6 / 16]\<rparr>, \<lparr>shape = [2], data = [7 / 16, 6 / 16]\<rparr>,
      \<lparr>shape = [1], data = [1 / 16]\<rparr>, \<lparr>shape = [1], data = [1 / 16]\<rparr>] =
   returned (UniformInit 0 1 1)
     [(UniformInit 0 1 0, [2]), (UniformInit 0 1 1, [2]), (UniformInit 0 1 1, [1]),
      (UniformInit 0 1 0, [1])]
     [\<lparr>shape = [2], data = [7 / 16, 6 / 16]\<rparr>, \<lparr>shape = [2], data = [7 / 16, 6 / 16]\<rparr>,
      \<lparr>shape = [1], data = [1 / 16]\<rparr>, \<lparr>shape = [1], data = [1 / 16]\<rparr>]"
proof -
  let ?a = "UniformInit 0 1 0" and ?b = "UniformInit 0 1 1"
  let ?cs = "[(?a, [2]), (?b, [2]), (?b, [1]), (?a, [1])]"
  have d1: "lcg_draws (Suc 0) s = ([real (s mod 16) / 16], lcg_step s)" for s
    by simp
  have d2: "lcg_draws 2 s = ([real (s mod 16) / 16, real (lcg_step s mod 16) / 16],
      lcg_step (lcg_step s))" for s
    by (simp add: numeral_2_eq_2)
  have k: "UniformInit_init lcg_random 7 0 1 None \<in> default_constructions lcg_random 7"
    unfolding default_constructions_def
    by (intro UnI1 CollectI exI[of _ 0] exI[of _ 1] conjI refl TrueI)
  have c: "UniformInit_init lcg_random 7 0 1 None [] = Inr (?a, [7])"
    "UniformInit_init lcg_random 7 0 1 None [7] = Inr (?b, [7, 7])"
    by (simp_all add: UniformInit_init_def rng_or_default_def new_def lcg_random_def)
  have r: "fst ` set ?cs \<subseteq> {?a, ?b}" "requests ?a ?cs = requests ?b ?cs"
    by (simp_all add: requests_def)
  have run: "calls lcg_random ?cs [7, 7] =
    Inr ([\<lparr>shape = [2], data = [7 / 16, 6 / 16]\<rparr>, \<lparr>shape = [2], data = [7 / 16, 6 / 16]\<rparr>,
          \<lparr>shape = [1], data = [1 / 16]\<rparr>, \<lparr>shape = [1], data = [1 / 16]\<rparr>], [8, 8])"
    by (simp add: lookup_def advance_def lcg_random_def lcg_sample_def d1 d2 lcg_step_def)
  have h: "UniformInit_init lcg_random 7 0 1 None \<in> default_constructions lcg_random 7 \<and>
    UniformInit_init lcg_random 7 0 1 None [] = Inr (?a, [7]) \<and>
    UniformInit_init lcg_random 7 0 1 None [7] = Inr (?b, [7, 7]) \<and>
    fst ` set ?cs \<subseteq> {?a, ?b} \<and> requests ?a ?cs = requests ?b ?cs \<and>
    calls lcg_random ?cs [7, 7] =
    Inr ([\<lparr>shape = [2], data = [7 / 16, 6 / 16]\<rparr>, \<lparr>shape = [2], data = [7 / 16, 6 / 16]\<rparr>,
          \<lparr>shape = [1], data = [1 / 16]\<rparr>, \<lparr>shape = [1], data = [1 / 16]\<rparr>], [8, 8])"
    using k c r run by (intro conjI)
  show ?thesis
    by (rule conjI[OF h mp[OF default_initialisers_reproducible h]])
qed

end
